theory Spec2Isabelle
  imports Complex_Main
begin

section \<open>Free tier usage tracking: data model\<close>

text \<open>
  The program keeps three SQLite tables (usage observations, free tier limits, alerts) and
  computes over Python floats. Amounts, limits and percentages are modelled as exact
  \<^typ>\<open>real\<close> numbers, so the binary rounding of IEEE arithmetic is not part of the
  model; the decimal rounding the program asks for itself (\<^verbatim>\<open>round(x, 2)\<close>,
  \<^verbatim>\<open>:.1f\<close>, \<^verbatim>\<open>int(x)\<close>) is. A Python exception is a value of
  \<open>py_error\<close> on the left of a sum.
\<close>

datatype py_error = ZeroDivisionError | IntegrityError | ValueError | TypeError

text \<open>
  A value of a result dictionary whose Python type depends on the branch taken:
  \<^verbatim>\<open>None\<close>, a number or a string.
\<close>

datatype pyval = PyNone | PyNum real | PyStr string

text \<open>
  One row fetched by the aggregation query of \<^verbatim>\<open>check_free_tier_usage\<close>
  (\<^verbatim>\<open>SELECT service, usage_type, SUM(usage_amount) AS total_usage, usage_unit,
  free_tier_limit, limit_unit, AVG(cost) AS avg_cost, COUNT(*) AS days_tracked ...\<close>).
  The column \<open>free_tier_limit\<close> is nullable in the schema.
\<close>

record usage_agg =
  service :: string
  usage_type :: string
  total_usage :: real
  usage_unit :: string
  free_tier_limit :: "real option"
  limit_unit :: "string option"
  avg_cost :: "real option"
  days_tracked :: nat

text \<open>
  The dictionary \<^verbatim>\<open>row_dict\<close> after classification: the fetched columns and the
  three keys the loop adds.
\<close>

record usage_status = usage_agg +
  usage_percentage :: pyval
  remaining :: pyval
  alert_level :: string

section \<open>Python arithmetic\<close>

text \<open>\<^verbatim>\<open>a / b\<close> on floats raises \<^verbatim>\<open>ZeroDivisionError\<close> for a zero divisor.\<close>

definition py_truediv :: "real \<Rightarrow> real \<Rightarrow> py_error + real" where
  "py_truediv a b = (if b = 0 then Inl ZeroDivisionError else Inr (a / b))"

text \<open>Rounding to the nearest integer, ties to the even neighbour.\<close>

definition round_half_even :: "real \<Rightarrow> int" where
  "round_half_even x =
     (let f = \<lfloor>x\<rfloor>; d = x - of_int f
      in if d < 1 / 2 then f
         else if 1 / 2 < d then f + 1
         else if even f then f else f + 1)"

text \<open>\<^verbatim>\<open>round(x, ndigits)\<close>.\<close>

definition py_round :: "real \<Rightarrow> nat \<Rightarrow> real" where
  "py_round x ndigits = of_int (round_half_even (x * 10 ^ ndigits)) / 10 ^ ndigits"

text \<open>
  Truthiness of a nullable number, as in \<^verbatim>\<open>if row_dict['free_tier_limit']:\<close>:
  \<^verbatim>\<open>None\<close> and \<^verbatim>\<open>0.0\<close> are false.
\<close>

definition truthy :: "real option \<Rightarrow> bool" where
  "truthy v = (case v of None \<Rightarrow> False | Some x \<Rightarrow> x \<noteq> 0)"

section \<open>Classification: \<^verbatim>\<open>DatabaseManager.check_free_tier_usage\<close>\<close>

text \<open>The three keys added in the \<^verbatim>\<open>else\<close> branch (no usable limit).\<close>

definition untracked :: "usage_agg \<Rightarrow> usage_status" where
  "untracked row =
     usage_agg.extend row
       (usage_status.fields (PyNum 0) (PyStr ''unlimited'') ''unknown'')"

text \<open>
  The body of the loop over the fetched rows. The alert level is decided on the
  unrounded local \<^verbatim>\<open>usage_percentage\<close>; the stored key is rounded to two places.
\<close>

definition classify_row :: "usage_agg \<Rightarrow> py_error + usage_status" where
  "classify_row row =
     (if truthy (free_tier_limit row) then
        (case free_tier_limit row of
           None \<Rightarrow> Inr (untracked row)
         | Some limv \<Rightarrow>
            (case py_truediv (total_usage row) limv of
               Inl e \<Rightarrow> Inl e
             | Inr q \<Rightarrow>
                (let usage_percentage = q * 100
                 in Inr (usage_agg.extend row
                      (usage_status.fields
                         (PyNum (py_round usage_percentage 2))
                         (PyNum (max 0 (limv - total_usage row)))
                         (if 90 \<le> usage_percentage then ''critical''
                          else if 75 \<le> usage_percentage then ''warning''
                          else if 50 \<le> usage_percentage then ''info''
                          else ''ok''))))))
      else Inr (untracked row))"

text \<open>
  The loop itself, over the list \<^verbatim>\<open>cursor.fetchall()\<close> returns; an exception in one
  row leaves the function.
\<close>

fun check_free_tier_usage :: "usage_agg list \<Rightarrow> py_error + usage_status list" where
  "check_free_tier_usage [] = Inr []"
| "check_free_tier_usage (row # rows) =
     (case classify_row row of
        Inl e \<Rightarrow> Inl e
      | Inr st \<Rightarrow>
         (case check_free_tier_usage rows of
            Inl e \<Rightarrow> Inl e
          | Inr sts \<Rightarrow> Inr (st # sts)))"

section \<open>The usage ledger: \<^verbatim>\<open>DatabaseManager.insert_usage_data\<close>\<close>

text \<open>
  One key of a dictionary in \<^verbatim>\<open>usage_records\<close>: the key is absent, or present with
  the value \<^verbatim>\<open>None\<close>, or present with a value.
\<close>

datatype 'a entry = Absent | IsNone | Val 'a

record usage_record =
  rec_date :: "string entry"
  rec_service :: "string entry"
  rec_usage_type :: "string entry"
  rec_usage_amount :: "real entry"
  rec_usage_unit :: "string entry"
  rec_cost :: "real entry"

text \<open>
  \<^verbatim>\<open>record.get(key)\<close> and \<^verbatim>\<open>record.get(key, default)\<close>; the result \<open>None\<close> is
  Python's \<^verbatim>\<open>None\<close>. The default replaces an absent key only: a key present with
  \<^verbatim>\<open>None\<close> yields \<^verbatim>\<open>None\<close>.
\<close>

definition dict_get :: "'a entry \<Rightarrow> 'a option" where
  "dict_get e = (case e of Absent \<Rightarrow> None | IsNone \<Rightarrow> None | Val v \<Rightarrow> Some v)"

definition dict_get_default :: "'a entry \<Rightarrow> 'a \<Rightarrow> 'a option" where
  "dict_get_default e dflt =
     (case e of Absent \<Rightarrow> Some dflt | IsNone \<Rightarrow> None | Val v \<Rightarrow> Some v)"

text \<open>A row of \<^verbatim>\<open>free_tier_limits\<close>, unique on \<^verbatim>\<open>(service, usage_type)\<close>.\<close>

record limit_row =
  monthly_limit :: real
  unit_name :: string

text \<open>
  A row of \<^verbatim>\<open>aws_free_tier_usage\<close>: the columns the \<^verbatim>\<open>INSERT\<close> statement
  writes, apart from the three columns of the \<^verbatim>\<open>UNIQUE(date, service, usage_type)\<close>
  key, which index the table below. \<^verbatim>\<open>usage_amount\<close> and \<^verbatim>\<open>usage_unit\<close> are
  \<^verbatim>\<open>NOT NULL\<close>; the other columns can hold \<^verbatim>\<open>NULL\<close>. The columns \<^verbatim>\<open>id\<close>
  and \<^verbatim>\<open>created_at\<close> are filled in by the storage engine, are read nowhere in the
  program, and are not part of the model: the ledger is the set of observations by
  identity key.
\<close>

record usage_row =
  row_usage_amount :: real
  row_usage_unit :: string
  row_free_tier_limit :: "real option"
  row_limit_unit :: "string option"
  row_cost :: "real option"
  row_is_free_tier :: bool

type_synonym usage_key = "string \<times> string \<times> string"

text \<open>A row of \<^verbatim>\<open>free_tier_alerts\<close>; the table has no uniqueness constraint.\<close>

record alert_row =
  al_service :: string
  al_usage_type :: string
  al_current_usage :: real
  al_limit_value :: real
  al_usage_percentage :: real
  al_alert_level :: string
  al_message :: string
  al_date :: string

record db =
  aws_free_tier_usage :: "usage_key \<rightharpoonup> usage_row"
  free_tier_limits :: "string \<times> string \<rightharpoonup> limit_row"
  free_tier_alerts :: "alert_row list"

text \<open>
  \<^verbatim>\<open>SELECT monthly_limit, unit FROM free_tier_limits WHERE service = ? AND usage_type = ?\<close>
  followed by \<^verbatim>\<open>fetchone()\<close>; a \<^verbatim>\<open>NULL\<close> parameter matches no row.
\<close>

definition lookup_limit :: "db \<Rightarrow> usage_record \<Rightarrow> limit_row option" where
  "lookup_limit d record =
     (case (dict_get (rec_service record), dict_get (rec_usage_type record)) of
        (Some s, Some u) \<Rightarrow> free_tier_limits d (s, u)
      | _ \<Rightarrow> None)"

text \<open>The nine values bound to the placeholders of the \<^verbatim>\<open>INSERT OR REPLACE\<close>.\<close>

record usage_params =
  p_date :: "string option"
  p_service :: "string option"
  p_usage_type :: "string option"
  p_usage_amount :: "real option"
  p_usage_unit :: "string option"
  p_free_tier_limit :: "real option"
  p_limit_unit :: "string option"
  p_cost :: "real option"
  p_is_free_tier :: bool

text \<open>
  The first half of the loop body: the limit lookup and the tuple of parameters.
  \<^verbatim>\<open>record.get('cost', 0.0) == 0.0\<close> is false for \<^verbatim>\<open>None\<close>.
\<close>

definition bound_params :: "db \<Rightarrow> usage_record \<Rightarrow> usage_params" where
  "bound_params d record =
     (let limit_row = lookup_limit d record;
          free_tier_limit = map_option monthly_limit limit_row;
          limit_unit = (case limit_row of
                          Some lr \<Rightarrow> Some (unit_name lr)
                        | None \<Rightarrow> dict_get_default (rec_usage_unit record) [])
      in \<lparr>p_date = dict_get (rec_date record),
          p_service = dict_get (rec_service record),
          p_usage_type = dict_get (rec_usage_type record),
          p_usage_amount = dict_get_default (rec_usage_amount record) 0,
          p_usage_unit = dict_get_default (rec_usage_unit record) [],
          p_free_tier_limit = free_tier_limit,
          p_limit_unit = limit_unit,
          p_cost = dict_get_default (rec_cost record) 0,
          p_is_free_tier = (dict_get_default (rec_cost record) 0 = Some 0)\<rparr>)"

text \<open>
  The row the statement builds, with its key. The columns \<^verbatim>\<open>date\<close>,
  \<^verbatim>\<open>service\<close>, \<^verbatim>\<open>usage_type\<close>, \<^verbatim>\<open>usage_amount\<close> and \<^verbatim>\<open>usage_unit\<close> are
  \<^verbatim>\<open>NOT NULL\<close> with no default: a \<^verbatim>\<open>None\<close> bound to one of them gives no row.
\<close>

definition new_row :: "usage_params \<Rightarrow> (usage_key \<times> usage_row) option" where
  "new_row p =
     (case (p_date p, p_service p, p_usage_type p, p_usage_amount p, p_usage_unit p) of
        (Some dt, Some s, Some u, Some a, Some un) \<Rightarrow>
          Some ((dt, s, u),
            \<lparr>row_usage_amount = a, row_usage_unit = un,
             row_free_tier_limit = p_free_tier_limit p,
             row_limit_unit = p_limit_unit p,
             row_cost = p_cost p,
             row_is_free_tier = p_is_free_tier p\<rparr>)
      | _ \<Rightarrow> None)"

text \<open>
  \<^verbatim>\<open>INSERT OR REPLACE\<close>: a \<^verbatim>\<open>NOT NULL\<close> violation aborts the statement with
  \<^verbatim>\<open>sqlite3.IntegrityError\<close>; otherwise the row takes the place of any row with the
  same key and every other row stays.
\<close>

definition insert_or_replace :: "db \<Rightarrow> usage_params \<Rightarrow> py_error + db" where
  "insert_or_replace d p =
     (case new_row p of
        None \<Rightarrow> Inl IntegrityError
      | Some (k, row) \<Rightarrow>
          Inr (d\<lparr>aws_free_tier_usage := (aws_free_tier_usage d)(k \<mapsto> row)\<rparr>))"

text \<open>The body of the loop.\<close>

definition insert_usage_record :: "db \<Rightarrow> usage_record \<Rightarrow> py_error + db" where
  "insert_usage_record d record = insert_or_replace d (bound_params d record)"

fun insert_records :: "db \<Rightarrow> usage_record list \<Rightarrow> py_error + db" where
  "insert_records d [] = Inr d"
| "insert_records d (record # records) =
     (case insert_usage_record d record of
        Inl e \<Rightarrow> Inl e
      | Inr d' \<Rightarrow> insert_records d' records)"

text \<open>
  The whole call runs in one transaction (\<^verbatim>\<open>with self.get_connection() as conn\<close>):
  it commits after the loop, and an exception rolls back every write of the batch and
  reaches the caller. The result is the exception raised, if any, and the stored state
  after the call.
\<close>

definition insert_usage_data :: "db \<Rightarrow> usage_record list \<Rightarrow> py_error option \<times> db" where
  "insert_usage_data d usage_records =
     (case insert_records d usage_records of
        Inl e \<Rightarrow> (Some e, d)
      | Inr d' \<Rightarrow> (None, d'))"


section \<open>Formatting a percentage: \<^verbatim>\<open>f"{usage_percentage:.1f}"\<close>\<close>

definition digit_char :: "nat \<Rightarrow> char" where
  "digit_char n = ''0123456789'' ! n"

fun nat_digits :: "nat \<Rightarrow> string" where
  "nat_digits n =
     (if n < 10 then [digit_char n]
      else nat_digits (n div 10) @ [digit_char (n mod 10)])"

declare nat_digits.simps [simp del]

text \<open>
  Fixed-point notation with one digit after the point: the value is rounded to tenths
  (ties to even), the sign is that of the argument.
\<close>

definition format_1f :: "real \<Rightarrow> string" where
  "format_1f x =
     (let n = nat (round_half_even (\<bar>x\<bar> * 10))
      in (if x < 0 then ''-'' else []) @ nat_digits (n div 10) @ ''.'' @ [digit_char (n mod 10)])"

section \<open>Alerts: \<^verbatim>\<open>DatabaseManager.create_free_tier_alert\<close> and
  \<^verbatim>\<open>FreeTierAlertManager.check_free_tier_alerts\<close>\<close>

definition store_alert :: "db \<Rightarrow> alert_row \<Rightarrow> db" where
  "store_alert d a = d\<lparr>free_tier_alerts := free_tier_alerts d @ [a]\<rparr>"

text \<open>
  \<open>today\<close> is \<^verbatim>\<open>datetime.now().strftime('%Y-%m-%d')\<close>. The percentage is computed
  again here, from the usage and the limit passed in, and is not rounded.
\<close>

definition create_free_tier_alert ::
  "db \<Rightarrow> string \<Rightarrow> string \<Rightarrow> string \<Rightarrow> real \<Rightarrow> real \<Rightarrow> py_error + db" where
  "create_free_tier_alert d today service' usage_type' current_usage limit_value =
     (case py_truediv current_usage limit_value of
        Inl e \<Rightarrow> Inl e
      | Inr q \<Rightarrow>
         (let usage_percentage = q * 100
          in if 90 \<le> usage_percentage then
               Inr (store_alert d
                 \<lparr>al_service = service', al_usage_type = usage_type',
                  al_current_usage = current_usage, al_limit_value = limit_value,
                  al_usage_percentage = usage_percentage, al_alert_level = ''critical'',
                  al_message = ''CRITICAL: '' @ service' @ '' '' @ usage_type' @ '' usage at ''
                     @ format_1f usage_percentage @ ''% of free tier limit'',
                  al_date = today\<rparr>)
             else if 75 \<le> usage_percentage then
               Inr (store_alert d
                 \<lparr>al_service = service', al_usage_type = usage_type',
                  al_current_usage = current_usage, al_limit_value = limit_value,
                  al_usage_percentage = usage_percentage, al_alert_level = ''warning'',
                  al_message = ''WARNING: '' @ service' @ '' '' @ usage_type' @ '' usage at ''
                     @ format_1f usage_percentage @ ''% of free tier limit'',
                  al_date = today\<rparr>)
             else Inr d))"

text \<open>
  The dictionary \<^verbatim>\<open>_create_alert\<close> returns to the caller. Its \<^verbatim>\<open>message\<close>,
  \<^verbatim>\<open>timestamp\<close> and \<^verbatim>\<open>month\<close> keys are display text for the log and are left out;
  the stored row above has its own message. \<open>create_alert\<close> is the method
  \<^verbatim>\<open>_create_alert\<close>: it builds the dictionary and stores the alert through
  \<open>create_free_tier_alert\<close>, which opens and commits its own transaction.
\<close>

record alert =
  alert_service :: string
  alert_usage_type :: string
  alert_severity :: string
  alert_usage_percentage :: real
  alert_current_usage :: real
  alert_limit :: real
  alert_remaining :: real

definition create_alert ::
  "db \<Rightarrow> string \<Rightarrow> string \<Rightarrow> string \<Rightarrow> string \<Rightarrow> real \<Rightarrow> real \<Rightarrow> real
     \<Rightarrow> py_error + (alert \<times> db)" where
  "create_alert d today service' usage_type' severity usage_percentage' current_usage limit' =
     (case create_free_tier_alert d today service' usage_type' current_usage limit' of
        Inl e \<Rightarrow> Inl e
      | Inr d' \<Rightarrow>
          Inr (\<lparr>alert_service = service', alert_usage_type = usage_type',
                alert_severity = severity, alert_usage_percentage = usage_percentage',
                alert_current_usage = current_usage, alert_limit = limit',
                alert_remaining = max 0 (limit' - current_usage)\<rparr>, d'))"

text \<open>
  The thresholds of \<^verbatim>\<open>self.alert_thresholds\<close>, set in the constructor.
\<close>

definition threshold_warning :: real where "threshold_warning = 75"
definition threshold_critical :: real where "threshold_critical = 90"

text \<open>
  The body of the loop over \<^verbatim>\<open>usage_status\<close>. The percentage read here is the
  rounded key of the status row. Comparing anything but a number with a float threshold
  raises \<^verbatim>\<open>TypeError\<close>.
\<close>

definition alert_step ::
  "db \<Rightarrow> string \<Rightarrow> usage_status \<Rightarrow> py_error + (alert list \<times> db)" where
  "alert_step d today service_usage =
     (if truthy (free_tier_limit service_usage) then
       (case free_tier_limit service_usage of
        None \<Rightarrow> Inr ([], d)
      | Some limit' \<Rightarrow>
          (case usage_percentage service_usage of
             PyNum p \<Rightarrow>
               if threshold_critical \<le> p then
                 (case create_alert d today (service service_usage) (usage_type service_usage)
                         ''critical'' p (total_usage service_usage) limit' of
                    Inl e \<Rightarrow> Inl e
                  | Inr (a, d') \<Rightarrow> Inr ([a], d'))
               else if threshold_warning \<le> p then
                 (case create_alert d today (service service_usage) (usage_type service_usage)
                         ''warning'' p (total_usage service_usage) limit' of
                    Inl e \<Rightarrow> Inl e
                  | Inr (a, d') \<Rightarrow> Inr ([a], d'))
               else Inr ([], d)
           | _ \<Rightarrow> Inl TypeError))
      else Inr ([], d))"

fun alerts_loop ::
  "db \<Rightarrow> string \<Rightarrow> usage_status list \<Rightarrow> py_error + (alert list \<times> db)" where
  "alerts_loop d today [] = Inr ([], d)"
| "alerts_loop d today (service_usage # rest) =
     (case alert_step d today service_usage of
        Inl e \<Rightarrow> Inl e
      | Inr (new, d') \<Rightarrow>
         (case alerts_loop d' today rest of
            Inl e \<Rightarrow> Inl e
          | Inr (alerts, d'') \<Rightarrow> Inr (new @ alerts, d'')))"

text \<open>
  \<open>fetched\<close> is what the aggregation query returns for the current month; the
  \<^verbatim>\<open>usage_data\<close> argument of the method is not read by it. An exception result
  carries no state (the alerts committed before it would stay stored); the generator is
  shown below to raise none.
\<close>

definition check_free_tier_alerts ::
  "db \<Rightarrow> string \<Rightarrow> usage_agg list \<Rightarrow> py_error + (alert list \<times> db)" where
  "check_free_tier_alerts d today fetched =
     (case check_free_tier_usage fetched of
        Inl e \<Rightarrow> Inl e
      | Inr usage_status \<Rightarrow> alerts_loop d today usage_status)"

section \<open>Breach prediction: \<^verbatim>\<open>FreeTierAlertManager.predict_free_tier_breach\<close>\<close>

text \<open>The fields of \<^verbatim>\<open>datetime.now()\<close> the method reads.\<close>

record clock =
  year :: nat
  month :: nat
  day :: nat

definition is_leap :: "nat \<Rightarrow> bool" where
  "is_leap y = (y mod 4 = 0 \<and> (y mod 100 \<noteq> 0 \<or> y mod 400 = 0))"

definition days_in :: "nat \<Rightarrow> nat \<Rightarrow> nat" where
  "days_in y m =
     (if m = 2 then (if is_leap y then 29 else 28)
      else if m = 4 \<or> m = 6 \<or> m = 9 \<or> m = 11 then 30
      else 31)"

text \<open>
  \<^verbatim>\<open>datetime.replace(day=n)\<close> raises \<^verbatim>\<open>ValueError\<close> when the month has no such
  day.
\<close>

definition replace_day :: "clock \<Rightarrow> int \<Rightarrow> py_error + clock" where
  "replace_day now n =
     (if 1 \<le> n \<and> n \<le> int (days_in (year now) (month now))
      then Inr (now\<lparr>day := nat n\<rparr>)
      else Inl ValueError)"

text \<open>\<^verbatim>\<open>int(x)\<close> on a float truncates towards zero.\<close>

definition py_int :: "real \<Rightarrow> int" where
  "py_int x = (if 0 \<le> x then \<lfloor>x\<rfloor> else \<lceil>x\<rceil>)"

text \<open>
  The row fetched by the month-to-date query
  (\<^verbatim>\<open>SELECT SUM(usage_amount), free_tier_limit, usage_unit ... GROUP BY service, usage_type\<close>).
\<close>

record mtd_row =
  month_to_date_usage :: real
  mtd_free_tier_limit :: "real option"
  mtd_usage_unit :: string

text \<open>
  The returned dictionary. \<open>projected_breach_date\<close> is kept as the date value that
  \<^verbatim>\<open>strftime('%Y-%m-%d')\<close> then prints.
\<close>

record prediction =
  pred_service :: string
  pred_usage_type :: string
  pred_current_usage :: real
  projected_usage :: real
  pred_limit :: real
  pred_unit :: string
  daily_average :: real
  days_to_breach :: int
  projected_breach_date :: clock
  confidence :: string

text \<open>\<^verbatim>\<open>days_in_month = 31  # Conservative estimate\<close>\<close>

definition days_in_month :: nat where
  "days_in_month = 31"

text \<open>
  \<open>now\<close> is the clock, \<open>fetched\<close> the result of \<^verbatim>\<open>cursor.fetchone()\<close>. The result
  \<open>Inr None\<close> is the Python \<^verbatim>\<open>None\<close>.
\<close>

definition predict_free_tier_breach ::
  "clock \<Rightarrow> string \<Rightarrow> string \<Rightarrow> mtd_row option \<Rightarrow> py_error + prediction option" where
  "predict_free_tier_breach now service' usage_type' fetched =
     (let current_day = day now
      in case fetched of
           None \<Rightarrow> Inr None
         | Some row \<Rightarrow>
            if \<not> truthy (mtd_free_tier_limit row) then Inr None
            else
            (case mtd_free_tier_limit row of
               None \<Rightarrow> Inr None
             | Some limit' \<Rightarrow>
                 (let month_to_date = month_to_date_usage row
                  in case py_truediv month_to_date (real current_day) of
                       Inl e \<Rightarrow> Inl e
                     | Inr daily_average' \<Rightarrow>
                        (let projected_monthly_usage = daily_average' * real days_in_month
                         in if limit' < projected_monthly_usage then
                              (case py_truediv (limit' - month_to_date) daily_average' of
                                 Inl e \<Rightarrow> Inl e
                               | Inr q \<Rightarrow>
                                  (let days_to_breach' = max 1 (py_int q)
                                   in case replace_day now
                                          (min (int days_in_month) (int current_day + days_to_breach')) of
                                        Inl e \<Rightarrow> Inl e
                                      | Inr breach_date \<Rightarrow>
                                         Inr (Some
                                           \<lparr>pred_service = service',
                                            pred_usage_type = usage_type',
                                            pred_current_usage = month_to_date,
                                            projected_usage = projected_monthly_usage,
                                            pred_limit = limit',
                                            pred_unit = mtd_usage_unit row,
                                            daily_average = daily_average',
                                            days_to_breach = days_to_breach',
                                            projected_breach_date = breach_date,
                                            confidence =
                                              (if 7 \<le> current_day then ''medium'' else ''low'')\<rparr>)))
                            else Inr None))))"

section \<open>The alert rule in the words of the specification\<close>

text \<open>
  What the specification says is persisted for one aggregated row: nothing without a usable
  limit or below 75 percent of it; otherwise one row, \<open>critical\<close> from 90 percent on and
  \<open>warning\<close> below, whose message names the service, the usage type and the percentage with
  one decimal. The percentage is the exact quotient.
\<close>

definition expected_alerts :: "string \<Rightarrow> usage_agg \<Rightarrow> alert_row list" where
  "expected_alerts today row =
     (case free_tier_limit row of
        None \<Rightarrow> []
      | Some limv \<Rightarrow>
         if limv = 0 \<or> total_usage row / limv * 100 < 75 then []
         else
           [\<lparr>al_service = service row, al_usage_type = usage_type row,
             al_current_usage = total_usage row, al_limit_value = limv,
             al_usage_percentage = total_usage row / limv * 100,
             al_alert_level =
               (if 90 \<le> total_usage row / limv * 100 then ''critical'' else ''warning''),
             al_message =
               (if 90 \<le> total_usage row / limv * 100 then ''CRITICAL: '' else ''WARNING: '')
               @ service row @ '' '' @ usage_type row @ '' usage at ''
               @ format_1f (total_usage row / limv * 100) @ ''% of free tier limit'',
             al_date = today\<rparr>])"

section \<open>Sample data\<close>

text \<open>
  An aggregated row for the EC2 instance hours of the test suite, with the usage and the
  limit left open.
\<close>

definition sample_row :: "real \<Rightarrow> real option \<Rightarrow> usage_agg" where
  "sample_row usage lim_opt =
     \<lparr>service = ''Amazon Elastic Compute Cloud - Compute'', usage_type = ''t2.micro'',
      total_usage = usage, usage_unit = ''hours'', free_tier_limit = lim_opt,
      limit_unit = Some ''hours'', avg_cost = Some 0, days_tracked = 1\<rparr>"

text \<open>
  A database with two of the limits that \<^verbatim>\<open>_populate_free_tier_limits\<close> seeds (EC2
  instance hours and S3 standard storage), an empty ledger and no alerts.
\<close>

definition sample_db :: db where
  "sample_db =
     \<lparr>aws_free_tier_usage = Map.empty,
      free_tier_limits =
        [(''Amazon Elastic Compute Cloud - Compute'', ''t2.micro'') \<mapsto>
           \<lparr>monthly_limit = 750, unit_name = ''hours''\<rparr>,
         (''Amazon Simple Storage Service'', ''Standard Storage'') \<mapsto>
           \<lparr>monthly_limit = 5, unit_name = ''GB''\<rparr>],
      free_tier_alerts = []\<rparr>"

text \<open>A day's EC2 observation, as in the test suite, with the date and the amount left open.\<close>

definition sample_record :: "string entry \<Rightarrow> real entry \<Rightarrow> usage_record" where
  "sample_record date_entry amount_entry =
     \<lparr>rec_date = date_entry,
      rec_service = Val ''Amazon Elastic Compute Cloud - Compute'',
      rec_usage_type = Val ''t2.micro'',
      rec_usage_amount = amount_entry,
      rec_usage_unit = Val ''hours'',
      rec_cost = Val 0\<rparr>"


text \<open>The rows fetched in the examples: 93.3, 74.996, 89.996 and 60 percent, no limit, limit 0.\<close>

definition sample_fetched :: "usage_agg list" where
  "sample_fetched =
     [sample_row 700 (Some 750), sample_row 74.996 (Some 100), sample_row 5 None,
      sample_row 5 (Some 0), sample_row 89.996 (Some 100), sample_row 60 (Some 100)]"

text \<open>The tenth day of a January, and a month-to-date row for the EC2 instance hours.\<close>

definition sample_now :: clock where
  "sample_now = \<lparr>year = 2024, month = 1, day = 10\<rparr>"

definition sample_mtd :: "real \<Rightarrow> real option \<Rightarrow> mtd_row" where
  "sample_mtd usage lim_opt =
     \<lparr>month_to_date_usage = usage, mtd_free_tier_limit = lim_opt, mtd_usage_unit = ''hours''\<rparr>"

section \<open>Properties of the classification\<close>

lemmas status_defs =
  usage_agg.defs usage_status.defs

lemma classify_row_tracked:
  assumes "free_tier_limit row = Some limv" and "limv \<noteq> 0"
  shows "classify_row row =
     Inr (usage_agg.extend row
       (usage_status.fields
          (PyNum (py_round (total_usage row / limv * 100) 2))
          (PyNum (max 0 (limv - total_usage row)))
          (if 90 \<le> total_usage row / limv * 100 then ''critical''
           else if 75 \<le> total_usage row / limv * 100 then ''warning''
           else if 50 \<le> total_usage row / limv * 100 then ''info''
           else ''ok'')))"
  using assms by (simp add: classify_row_def truthy_def py_truediv_def)

lemma classify_row_untracked:
  assumes "\<not> truthy (free_tier_limit row)"
  shows "classify_row row = Inr (untracked row)"
  using assms by (simp add: classify_row_def)

lemma alert_level_extend [simp]:
  "alert_level (usage_agg.extend row (usage_status.fields p r a)) = a"
  "remaining (usage_agg.extend row (usage_status.fields p r a)) = r"
  "usage_percentage (usage_agg.extend row (usage_status.fields p r a)) = p"
  by (simp_all add: status_defs)

subsection \<open>Rounding\<close>

lemma round_half_even_floor:
  "\<lfloor>x\<rfloor> \<le> round_half_even x" "round_half_even x \<le> \<lfloor>x\<rfloor> + 1"
  unfolding round_half_even_def Let_def by auto

lemma round_half_even_bounds:
  "\<bar>of_int (round_half_even x) - x\<bar> \<le> 1 / 2"
  unfolding round_half_even_def Let_def
  by (auto simp: abs_if) linarith+

lemma round_half_even_ge_int:
  assumes "of_int k \<le> x" shows "k \<le> round_half_even x"
proof -
  from assms have "k \<le> \<lfloor>x\<rfloor>" by (simp add: le_floor_iff)
  with round_half_even_floor(1) [of x] show ?thesis by linarith
qed

lemma py_round_2_close: "\<bar>py_round x 2 - x\<bar> \<le> 1 / 200"
proof -
  have "\<bar>of_int (round_half_even (x * 100)) - x * 100\<bar> \<le> 1 / 2"
    by (rule round_half_even_bounds)
  then show ?thesis
    by (simp add: py_round_def abs_if field_simps split: if_splits)
qed

lemma py_round_2_ge:
  assumes "of_int k / 100 \<le> x" shows "of_int k / 100 \<le> py_round x 2"
proof -
  from assms have "of_int k \<le> x * 100" by (simp add: field_simps)
  then have "k \<le> round_half_even (x * 100)" by (rule round_half_even_ge_int)
  then have "(of_int k :: real) \<le> of_int (round_half_even (x * 100))" by simp
  then show ?thesis by (simp add: py_round_def field_simps)
qed

lemma py_round_2_ge_75: "75 \<le> x \<Longrightarrow> 75 \<le> py_round x 2"
  using py_round_2_ge [of 7500 x] by simp

lemma py_round_2_ge_90: "90 \<le> x \<Longrightarrow> 90 \<le> py_round x 2"
  using py_round_2_ge [of 9000 x] by simp

subsection \<open>The usage check never raises\<close>

lemma classify_row_total: "\<exists>st. classify_row row = Inr st"
proof (cases "truthy (free_tier_limit row)")
  case True
  then obtain limv where "free_tier_limit row = Some limv" "limv \<noteq> 0"
    by (auto simp: truthy_def split: option.splits)
  then show ?thesis using classify_row_tracked by blast
next
  case False
  then show ?thesis by (simp add: classify_row_untracked)
qed

lemma check_free_tier_usage_total: "\<exists>sts. check_free_tier_usage rows = Inr sts"
proof (induction rows)
  case Nil
  show ?case by simp
next
  case (Cons row rows)
  obtain st where "classify_row row = Inr st" using classify_row_total by blast
  moreover obtain sts where "check_free_tier_usage rows = Inr sts" using Cons.IH by blast
  ultimately show ?case by simp
qed

subsection \<open>Severity thresholds\<close>

text \<open>
  Claim C1. For an aggregated row with a limit (present and nonzero), the alert level is
  \<open>critical\<close> from 90 percent of the limit on, else \<open>warning\<close> from 75, else \<open>info\<close>
  from 50, else \<open>ok\<close>; the percentage tested is the exact quotient
  \<open>total_usage / free_tier_limit * 100\<close>, and each boundary belongs to the higher level.
\<close>

theorem severity_thresholds:
  assumes "free_tier_limit row = Some limv" and "limv \<noteq> 0"
  shows "\<exists>st. classify_row row = Inr st \<and>
           alert_level st =
             (if 90 \<le> total_usage row / limv * 100 then ''critical''
              else if 75 \<le> total_usage row / limv * 100 then ''warning''
              else if 50 \<le> total_usage row / limv * 100 then ''info''
              else ''ok'')"
  using classify_row_tracked [OF assms] by simp

text \<open>The five boundary values of the specification, as percentages of a limit of 100.\<close>

theorem severity_thresholds_witness:
  "(\<exists>st. classify_row (sample_row 50 (Some 100)) = Inr st \<and> alert_level st = ''info'') \<and>
   (\<exists>st. classify_row (sample_row 74.999 (Some 100)) = Inr st \<and> alert_level st = ''info'') \<and>
   (\<exists>st. classify_row (sample_row 75 (Some 100)) = Inr st \<and> alert_level st = ''warning'') \<and>
   (\<exists>st. classify_row (sample_row 89.999 (Some 100)) = Inr st \<and> alert_level st = ''warning'') \<and>
   (\<exists>st. classify_row (sample_row 90 (Some 100)) = Inr st \<and> alert_level st = ''critical'')"
  using severity_thresholds [of "sample_row 50 (Some 100)" 100]
    severity_thresholds [of "sample_row 74.999 (Some 100)" 100]
    severity_thresholds [of "sample_row 75 (Some 100)" 100]
    severity_thresholds [of "sample_row 89.999 (Some 100)" 100]
    severity_thresholds [of "sample_row 90 (Some 100)" 100]
  by (simp add: sample_row_def)

subsection \<open>Remaining amount and percentage\<close>

text \<open>
  Claim C2, as stated: the returned percentage is the exact quotient. It is not: the row
  keeps \<^verbatim>\<open>round(usage_percentage, 2)\<close>. One unit used of a limit of three gives 33.33,
  not 100/3.
\<close>

theorem percentage_exact_counterexample:
  "classify_row (sample_row 1 (Some 3)) =
     Inr (usage_agg.extend (sample_row 1 (Some 3))
            (usage_status.fields (PyNum (3333 / 100)) (PyNum 2) ''ok'')) \<and>
   PyNum (3333 / 100) \<noteq> PyNum (1 / 3 * 100)"
  by (simp add: classify_row_tracked [of _ 3] sample_row_def py_round_def
      round_half_even_def Let_def)

text \<open>
  Claim C2, amended. For a row with a present, nonzero limit the remaining amount is
  \<open>max 0 (limit - total_usage)\<close>, and the returned percentage is the quotient
  \<open>total_usage / limit * 100\<close> rounded to two decimal places: a whole number of
  hundredths, at most 0.005 away from the quotient.
\<close>

theorem remaining_and_rounded_percentage:
  assumes "free_tier_limit row = Some limv" and "limv \<noteq> 0"
  shows "\<exists>st. classify_row row = Inr st \<and>
           remaining st = PyNum (max 0 (limv - total_usage row)) \<and>
           usage_percentage st = PyNum (py_round (total_usage row / limv * 100) 2) \<and>
           (\<exists>k::int. py_round (total_usage row / limv * 100) 2 = of_int k / 100) \<and>
           \<bar>py_round (total_usage row / limv * 100) 2 - total_usage row / limv * 100\<bar>
             \<le> 1 / 200"
proof -
  have "\<exists>k::int. py_round (total_usage row / limv * 100) 2 = of_int k / 100"
    by (auto simp: py_round_def)
  then show ?thesis
    using classify_row_tracked [OF assms] py_round_2_close by simp
qed

theorem remaining_and_rounded_percentage_witness:
  "\<exists>st. classify_row (sample_row 600 (Some 750)) = Inr st \<and>
         remaining st = PyNum 150 \<and> usage_percentage st = PyNum 80"
  using remaining_and_rounded_percentage [of "sample_row 600 (Some 750)" 750]
  by (simp add: sample_row_def py_round_def round_half_even_def)

subsection \<open>Rows without a limit\<close>

text \<open>
  Claim C3, as stated: a row without a limit gets the percentage \<^verbatim>\<open>None\<close>. The code
  stores the number 0 there.
\<close>

theorem no_limit_percentage_counterexample:
  "classify_row (sample_row 5 None) =
     Inr (usage_agg.extend (sample_row 5 None)
            (usage_status.fields (PyNum 0) (PyStr ''unlimited'') ''unknown'')) \<and>
   PyNum 0 \<noteq> PyNone"
  by (simp add: classify_row_def truthy_def untracked_def sample_row_def)

text \<open>
  Claim C3, amended. A row whose limit is null is classified without an exception, with
  percentage 0 (a number), remaining \<open>unlimited\<close> and alert level \<open>unknown\<close>.
\<close>

theorem no_limit_unknown:
  assumes "free_tier_limit row = None"
  shows "\<exists>st. classify_row row = Inr st \<and>
           usage_percentage st = PyNum 0 \<and>
           remaining st = PyStr ''unlimited'' \<and>
           alert_level st = ''unknown''"
  using assms by (simp add: classify_row_def truthy_def untracked_def)

theorem no_limit_unknown_witness:
  "free_tier_limit (sample_row 5 None) = None \<and>
   (\<exists>st. classify_row (sample_row 5 None) = Inr st \<and>
      usage_percentage st = PyNum 0 \<and>
      remaining st = PyStr ''unlimited'' \<and>
      alert_level st = ''unknown'')"
  using no_limit_unknown [of "sample_row 5 None"]
  by (simp add: sample_row_def)

subsection \<open>A limit of zero\<close>

text \<open>
  Claim C10. A row whose stored limit is exactly 0 is classified like a row without a
  limit (the truthiness test sends it to the \<^verbatim>\<open>else\<close> branch), and the usage check
  returns a status list for every list of fetched rows: no division by zero is reached.
\<close>

theorem zero_limit_unknown:
  "(free_tier_limit row = Some 0 \<longrightarrow>
      classify_row row = Inr (untracked row) \<and>
      usage_percentage (untracked row) = PyNum 0 \<and>
      remaining (untracked row) = PyStr ''unlimited'' \<and>
      alert_level (untracked row) = ''unknown'') \<and>
   classify_row row \<noteq> Inl ZeroDivisionError \<and>
   (\<exists>sts. check_free_tier_usage rows = Inr sts)"
proof (intro conjI impI)
  assume "free_tier_limit row = Some 0"
  then have "\<not> truthy (free_tier_limit row)" by (simp add: truthy_def)
  then show "classify_row row = Inr (untracked row)" by (rule classify_row_untracked)
next
  show "classify_row row \<noteq> Inl ZeroDivisionError"
    using classify_row_total [of row] by auto
next
  show "\<exists>sts. check_free_tier_usage rows = Inr sts"
    by (rule check_free_tier_usage_total)
qed (simp_all add: untracked_def)

theorem zero_limit_unknown_witness:
  "free_tier_limit (sample_row 5 (Some 0)) = Some 0 \<and>
   classify_row (sample_row 5 (Some 0)) = Inr (untracked (sample_row 5 (Some 0))) \<and>
   alert_level (untracked (sample_row 5 (Some 0))) = ''unknown'' \<and>
   (\<exists>sts. check_free_tier_usage [sample_row 5 (Some 0), sample_row 600 (Some 750)] = Inr sts)"
proof -
  have h: "free_tier_limit (sample_row 5 (Some 0)) = Some 0"
    by (simp add: sample_row_def)
  from zero_limit_unknown [of "sample_row 5 (Some 0)"
      "[sample_row 5 (Some 0), sample_row 600 (Some 750)]"] h
  show ?thesis by blast
qed

section \<open>Properties of the ledger\<close>

lemma dict_get_default_None_iff: "dict_get_default e dflt = None \<longleftrightarrow> e = IsNone"
  by (simp add: dict_get_default_def split: entry.splits)

lemma bound_params_usage_upd [simp]:
  "bound_params (d\<lparr>aws_free_tier_usage := m\<rparr>) r = bound_params d r"
  by (simp add: bound_params_def lookup_limit_def split: option.splits)

lemma bound_params_fields [simp]:
  "p_date (bound_params d r) = dict_get (rec_date r)"
  "p_service (bound_params d r) = dict_get (rec_service r)"
  "p_usage_type (bound_params d r) = dict_get (rec_usage_type r)"
  "p_usage_amount (bound_params d r) = dict_get_default (rec_usage_amount r) 0"
  "p_usage_unit (bound_params d r) = dict_get_default (rec_usage_unit r) []"
  by (simp_all add: bound_params_def Let_def)

lemma new_row_None_iff:
  "new_row (bound_params d r) = None \<longleftrightarrow>
     dict_get (rec_date r) = None \<or> dict_get (rec_service r) = None \<or>
     dict_get (rec_usage_type r) = None \<or>
     dict_get_default (rec_usage_amount r) 0 = None \<or>
     dict_get_default (rec_usage_unit r) [] = None"
  by (auto simp: new_row_def split: option.splits)

lemma new_row_SomeD:
  assumes "new_row (bound_params d r) = Some (k, row)"
  shows "dict_get (rec_date r) = Some (fst k)"
    and "dict_get (rec_service r) = Some (fst (snd k))"
    and "dict_get (rec_usage_type r) = Some (snd (snd k))"
    and "dict_get_default (rec_usage_amount r) 0 = Some (row_usage_amount row)"
    and "dict_get_default (rec_usage_unit r) [] = Some (row_usage_unit row)"
  using assms by (auto simp: new_row_def split: option.splits)

lemma new_row_same_key:
  assumes "dict_get (rec_date r1) = dict_get (rec_date r2)"
    and "dict_get (rec_service r1) = dict_get (rec_service r2)"
    and "dict_get (rec_usage_type r1) = dict_get (rec_usage_type r2)"
    and "new_row (bound_params d r1) = Some (k1, row1)"
    and "new_row (bound_params d r2) = Some (k2, row2)"
  shows "k1 = k2"
  using new_row_SomeD(1-3) [OF assms(4)] new_row_SomeD(1-3) [OF assms(5)] assms(1-3)
  by (simp add: prod_eq_iff)

lemma insert_usage_record_eq:
  "insert_usage_record d r =
     (case new_row (bound_params d r) of
        None \<Rightarrow> Inl IntegrityError
      | Some (k, row) \<Rightarrow>
          Inr (d\<lparr>aws_free_tier_usage := (aws_free_tier_usage d)(k \<mapsto> row)\<rparr>))"
  by (simp add: insert_usage_record_def insert_or_replace_def)




lemma insert_usage_data_single:
  "insert_usage_data d [r] =
     (case new_row (bound_params d r) of
        None \<Rightarrow> (Some IntegrityError, d)
      | Some (k, row) \<Rightarrow>
          (None, d\<lparr>aws_free_tier_usage := (aws_free_tier_usage d)(k \<mapsto> row)\<rparr>))"
  by (simp add: insert_usage_data_def insert_usage_record_eq split: option.splits)

lemma insert_usage_data_pair:
  "insert_usage_data d [r1, r2] =
     (case new_row (bound_params d r1) of
        None \<Rightarrow> (Some IntegrityError, d)
      | Some (k1, row1) \<Rightarrow>
         (case new_row (bound_params d r2) of
            None \<Rightarrow> (Some IntegrityError, d)
          | Some (k2, row2) \<Rightarrow>
              (None, d\<lparr>aws_free_tier_usage :=
                 (aws_free_tier_usage d)(k1 \<mapsto> row1, k2 \<mapsto> row2)\<rparr>)))"
  by (simp add: insert_usage_data_def insert_usage_record_eq split: option.splits)

lemma new_row_rejected_alike:
  assumes "dict_get (rec_date r1) = dict_get (rec_date r2)"
    and "dict_get (rec_service r1) = dict_get (rec_service r2)"
    and "dict_get (rec_usage_type r1) = dict_get (rec_usage_type r2)"
    and "rec_usage_amount r1 \<noteq> IsNone" and "rec_usage_unit r1 \<noteq> IsNone"
    and "rec_usage_amount r2 \<noteq> IsNone" and "rec_usage_unit r2 \<noteq> IsNone"
  shows "new_row (bound_params d r1) = None \<longleftrightarrow> new_row (bound_params d r2) = None"
  using assms by (simp add: new_row_None_iff dict_get_default_None_iff)

subsection \<open>Idempotent upsert\<close>

text \<open>
  Claim C4. Writing the same observation a second time, in a later call or in the same
  batch, leaves the stored state as one write leaves it. Writing a second observation with
  the same date, service and usage type leaves the state that writing the second alone
  leaves: the row under that key holds the second amount, not a sum. (An observation has
  an amount and a unit: neither key is present with the value \<^verbatim>\<open>None\<close>.)
\<close>

theorem upsert_idempotent_and_replaces:
  "insert_usage_data (snd (insert_usage_data d [r])) [r] = insert_usage_data d [r] \<and>
   insert_usage_data d [r, r] = insert_usage_data d [r] \<and>
   (dict_get (rec_date r1) = dict_get (rec_date r2) \<and>
    dict_get (rec_service r1) = dict_get (rec_service r2) \<and>
    dict_get (rec_usage_type r1) = dict_get (rec_usage_type r2) \<and>
    rec_usage_amount r1 \<noteq> IsNone \<and> rec_usage_unit r1 \<noteq> IsNone \<and>
    rec_usage_amount r2 \<noteq> IsNone \<and> rec_usage_unit r2 \<noteq> IsNone \<longrightarrow>
      insert_usage_data (snd (insert_usage_data d [r1])) [r2] = insert_usage_data d [r2] \<and>
      insert_usage_data d [r1, r2] = insert_usage_data d [r2] \<and>
      (dict_get (rec_date r2) = Some dt \<and> dict_get (rec_service r2) = Some s \<and>
       dict_get (rec_usage_type r2) = Some u \<longrightarrow>
         dict_get_default (rec_usage_amount r2) 0 \<noteq> None \<and>
         map_option row_usage_amount
           (aws_free_tier_usage (snd (insert_usage_data d [r1, r2])) (dt, s, u)) =
         dict_get_default (rec_usage_amount r2) 0))"
proof (intro conjI impI)
  show "insert_usage_data (snd (insert_usage_data d [r])) [r] = insert_usage_data d [r]"
    by (cases "new_row (bound_params d r)") (auto simp: insert_usage_data_single)
  show "insert_usage_data d [r, r] = insert_usage_data d [r]"
    by (cases "new_row (bound_params d r)")
      (auto simp: insert_usage_data_single insert_usage_data_pair)
next
  assume same: "dict_get (rec_date r1) = dict_get (rec_date r2) \<and>
    dict_get (rec_service r1) = dict_get (rec_service r2) \<and>
    dict_get (rec_usage_type r1) = dict_get (rec_usage_type r2) \<and>
    rec_usage_amount r1 \<noteq> IsNone \<and> rec_usage_unit r1 \<noteq> IsNone \<and>
    rec_usage_amount r2 \<noteq> IsNone \<and> rec_usage_unit r2 \<noteq> IsNone"
  then have alike: "new_row (bound_params d r1) = None \<longleftrightarrow> new_row (bound_params d r2) = None"
    by (intro new_row_rejected_alike) simp_all
  have both: "insert_usage_data (snd (insert_usage_data d [r1])) [r2] = insert_usage_data d [r2] \<and>
      insert_usage_data d [r1, r2] = insert_usage_data d [r2]"
  proof (cases "new_row (bound_params d r1)")
    case None
    with alike have "new_row (bound_params d r2) = None" by simp
    with None show ?thesis by (simp add: insert_usage_data_single insert_usage_data_pair)
  next
    case (Some kr1)
    obtain k1 row1 where kr1: "kr1 = (k1, row1)" by (cases kr1)
    from Some alike obtain k2 row2 where r2: "new_row (bound_params d r2) = Some (k2, row2)"
      by (cases "new_row (bound_params d r2)") auto
    from same Some kr1 r2 have "k1 = k2"
      by (intro new_row_same_key [of r1 r2 d k1 row1 k2 row2]) simp_all
    with Some kr1 r2 show ?thesis
      by (simp add: insert_usage_data_single insert_usage_data_pair)
  qed
  from both show "insert_usage_data (snd (insert_usage_data d [r1])) [r2] =
      insert_usage_data d [r2]" by simp
  from both show batch: "insert_usage_data d [r1, r2] = insert_usage_data d [r2]" by simp
  assume key: "dict_get (rec_date r2) = Some dt \<and> dict_get (rec_service r2) = Some s \<and>
    dict_get (rec_usage_type r2) = Some u"
  from same show "dict_get_default (rec_usage_amount r2) 0 \<noteq> None"
    by (simp add: dict_get_default_None_iff)
  from same key have "new_row (bound_params d r2) \<noteq> None"
    by (simp add: new_row_None_iff dict_get_default_None_iff)
  then obtain k2 row2 where r2: "new_row (bound_params d r2) = Some (k2, row2)"
    by (cases "new_row (bound_params d r2)") auto
  from new_row_SomeD [OF r2] key have "k2 = (dt, s, u)"
    and "dict_get_default (rec_usage_amount r2) 0 = Some (row_usage_amount row2)"
    by (simp_all add: prod_eq_iff)
  with r2 show "map_option row_usage_amount
           (aws_free_tier_usage (snd (insert_usage_data d [r1, r2])) (dt, s, u)) =
         dict_get_default (rec_usage_amount r2) 0"
    by (simp add: batch insert_usage_data_single)
qed

text \<open>
  Twenty-four hours, then thirty, for the same day: the ledger holds one row for the key,
  with thirty hours and the limit of 750 attached.
\<close>

theorem upsert_idempotent_and_replaces_witness:
  "insert_usage_data sample_db
     [sample_record (Val ''2024-01-15'') (Val 24), sample_record (Val ''2024-01-15'') (Val 30)]
   = insert_usage_data sample_db [sample_record (Val ''2024-01-15'') (Val 30)] \<and>
   map_option row_usage_amount
     (aws_free_tier_usage
        (snd (insert_usage_data sample_db
           [sample_record (Val ''2024-01-15'') (Val 24),
            sample_record (Val ''2024-01-15'') (Val 30)]))
        (''2024-01-15'', ''Amazon Elastic Compute Cloud - Compute'', ''t2.micro'')) = Some 30"
proof -
  let ?r1 = "sample_record (Val ''2024-01-15'') (Val 24)"
  let ?r2 = "sample_record (Val ''2024-01-15'') (Val 30)"
  have same: "dict_get (rec_date ?r1) = dict_get (rec_date ?r2) \<and>
      dict_get (rec_service ?r1) = dict_get (rec_service ?r2) \<and>
      dict_get (rec_usage_type ?r1) = dict_get (rec_usage_type ?r2) \<and>
      rec_usage_amount ?r1 \<noteq> IsNone \<and> rec_usage_unit ?r1 \<noteq> IsNone \<and>
      rec_usage_amount ?r2 \<noteq> IsNone \<and> rec_usage_unit ?r2 \<noteq> IsNone"
    by (simp add: sample_record_def)
  have key: "dict_get (rec_date ?r2) = Some ''2024-01-15'' \<and>
      dict_get (rec_service ?r2) = Some ''Amazon Elastic Compute Cloud - Compute'' \<and>
      dict_get (rec_usage_type ?r2) = Some ''t2.micro''"
    by (simp add: sample_record_def dict_get_def)
  have amount: "dict_get_default (rec_usage_amount ?r2) 0 = Some 30"
    by (simp add: sample_record_def dict_get_default_def)
  from upsert_idempotent_and_replaces [of sample_db ?r1 ?r1 ?r2
      "''2024-01-15''" "''Amazon Elastic Compute Cloud - Compute''" "''t2.micro''"]
    same key
  have "insert_usage_data sample_db [?r1, ?r2] = insert_usage_data sample_db [?r2] \<and>
    map_option row_usage_amount
     (aws_free_tier_usage (snd (insert_usage_data sample_db [?r1, ?r2]))
        (''2024-01-15'', ''Amazon Elastic Compute Cloud - Compute'', ''t2.micro''))
    = dict_get_default (rec_usage_amount ?r2) 0"
    by blast
  then show ?thesis unfolding amount .
qed





subsection \<open>Records with missing fields\<close>




section \<open>Properties of the alert generator\<close>

lemma extend_base_fields [simp]:
  "service (usage_agg.extend row (usage_status.fields p r a)) = service row"
  "usage_type (usage_agg.extend row (usage_status.fields p r a)) = usage_type row"
  "total_usage (usage_agg.extend row (usage_status.fields p r a)) = total_usage row"
  "free_tier_limit (usage_agg.extend row (usage_status.fields p r a)) = free_tier_limit row"
  by (cases row; simp add: status_defs)+

lemma py_round_2_lt_75: "py_round x 2 < 75 \<Longrightarrow> x < 75"
  using py_round_2_ge_75 [of x] by linarith

lemma py_round_2_lt_90: "py_round x 2 < 90 \<Longrightarrow> x < 90"
  using py_round_2_ge_90 [of x] by linarith

lemma py_round_2_ge_90_imp: "90 \<le> py_round x 2 \<Longrightarrow> 75 \<le> x"
  using py_round_2_close [of x] by linarith

lemma create_free_tier_alert_nonzero:
  assumes "limv \<noteq> 0"
  shows "create_free_tier_alert d today s u usage limv =
     Inr (if 90 \<le> usage / limv * 100 then
            store_alert d
              \<lparr>al_service = s, al_usage_type = u, al_current_usage = usage,
               al_limit_value = limv, al_usage_percentage = usage / limv * 100,
               al_alert_level = ''critical'',
               al_message = ''CRITICAL: '' @ s @ '' '' @ u @ '' usage at ''
                  @ format_1f (usage / limv * 100) @ ''% of free tier limit'',
               al_date = today\<rparr>
          else if 75 \<le> usage / limv * 100 then
            store_alert d
              \<lparr>al_service = s, al_usage_type = u, al_current_usage = usage,
               al_limit_value = limv, al_usage_percentage = usage / limv * 100,
               al_alert_level = ''warning'',
               al_message = ''WARNING: '' @ s @ '' '' @ u @ '' usage at ''
                  @ format_1f (usage / limv * 100) @ ''% of free tier limit'',
               al_date = today\<rparr>
          else d)"
  using assms by (simp add: create_free_tier_alert_def py_truediv_def Let_def)

lemma create_free_tier_alert_zero:
  "create_free_tier_alert d today s u usage 0 = Inl ZeroDivisionError"
  by (simp add: create_free_tier_alert_def py_truediv_def)

lemma create_free_tier_alert_expected:
  assumes "free_tier_limit row = Some limv" and "limv \<noteq> 0"
    and "75 \<le> total_usage row / limv * 100"
  shows "\<exists>d'. create_free_tier_alert d today (service row) (usage_type row)
                 (total_usage row) limv = Inr d' \<and>
           free_tier_alerts d' = free_tier_alerts d @ expected_alerts today row"
  using assms
  by (simp add: create_free_tier_alert_nonzero expected_alerts_def store_alert_def)

lemma alert_step_classified:
  assumes "classify_row row = Inr st"
  shows "\<exists>new d'. alert_step d today st = Inr (new, d') \<and>
           free_tier_alerts d' = free_tier_alerts d @ expected_alerts today row"
proof (cases "truthy (free_tier_limit row)")
  case False
  with assms have st: "st = untracked row" by (simp add: classify_row_untracked)
  from False have "expected_alerts today row = []"
    by (auto simp: expected_alerts_def truthy_def split: option.splits)
  moreover from False st have "alert_step d today st = Inr ([], d)"
    by (simp add: alert_step_def untracked_def)
  ultimately show ?thesis by simp
next
  case True
  then obtain limv where lim: "free_tier_limit row = Some limv" "limv \<noteq> 0"
    by (auto simp: truthy_def split: option.splits)
  let ?p = "total_usage row / limv * 100"
  from assms classify_row_tracked [OF lim]
  have st: "usage_percentage st = PyNum (py_round ?p 2)" "free_tier_limit st = Some limv"
    "service st = service row" "usage_type st = usage_type row"
    "total_usage st = total_usage row"
    using lim by auto
  have tr: "truthy (free_tier_limit st)" using st lim by (simp add: truthy_def)
  show ?thesis
  proof (cases "75 \<le> py_round ?p 2")
    case False
    then have "?p < 75" using py_round_2_lt_75 by simp
    then have "expected_alerts today row = []" using lim by (simp add: expected_alerts_def)
    moreover have "alert_step d today st = Inr ([], d)"
      using False st tr
      by (simp add: alert_step_def threshold_critical_def threshold_warning_def)
    ultimately show ?thesis by simp
  next
    case True
    show ?thesis
    proof (cases "75 \<le> ?p")
      case ge: True
      then obtain d' where d': "create_free_tier_alert d today (service row) (usage_type row)
            (total_usage row) limv = Inr d'"
        "free_tier_alerts d' = free_tier_alerts d @ expected_alerts today row"
        using create_free_tier_alert_expected [OF lim] by blast
      then show ?thesis
        using True st tr
        by (simp add: alert_step_def create_alert_def threshold_critical_def
            threshold_warning_def)
    next
      case lt: False
      then have "py_round ?p 2 < 90" using py_round_2_ge_90_imp [of ?p] by linarith
      moreover have "expected_alerts today row = []"
        using lt lim by (simp add: expected_alerts_def)
      moreover have "create_free_tier_alert d today (service row) (usage_type row)
            (total_usage row) limv = Inr d"
        using lt lim by (simp add: create_free_tier_alert_nonzero)
      ultimately show ?thesis
        using True st tr
        by (simp add: alert_step_def create_alert_def threshold_critical_def
            threshold_warning_def)
    qed
  qed
qed

lemma alerts_loop_classified:
  assumes "check_free_tier_usage fetched = Inr sts"
  shows "\<exists>alerts d'. alerts_loop d today sts = Inr (alerts, d') \<and>
           free_tier_alerts d' =
             free_tier_alerts d @ concat (map (expected_alerts today) fetched)"
  using assms
proof (induction fetched arbitrary: sts d)
  case Nil
  then show ?case by simp
next
  case (Cons row rows)
  from Cons.prems obtain st sts' where st: "classify_row row = Inr st"
    and sts': "check_free_tier_usage rows = Inr sts'" and eq: "sts = st # sts'"
    by (auto split: sum.splits)
  obtain new d1 where step: "alert_step d today st = Inr (new, d1)"
    "free_tier_alerts d1 = free_tier_alerts d @ expected_alerts today row"
    using alert_step_classified [OF st] by blast
  obtain alerts d2 where rest: "alerts_loop d1 today sts' = Inr (alerts, d2)"
    "free_tier_alerts d2 =
       free_tier_alerts d1 @ concat (map (expected_alerts today) rows)"
    using Cons.IH [OF sts'] by blast
  from step rest eq show ?case by simp
qed

lemma check_free_tier_alerts_persisted:
  "\<exists>alerts d'. check_free_tier_alerts d today fetched = Inr (alerts, d') \<and>
     free_tier_alerts d' =
       free_tier_alerts d @ concat (map (expected_alerts today) fetched)"
proof -
  obtain sts where sts: "check_free_tier_usage fetched = Inr sts"
    using check_free_tier_usage_total by blast
  from alerts_loop_classified [OF sts] show ?thesis
    by (simp add: check_free_tier_alerts_def sts)
qed

lemma digit_char_digit: "n < 10 \<Longrightarrow> digit_char n \<in> set ''0123456789''"
  unfolding digit_char_def by (rule nth_mem) simp

lemma format_1f_one_decimal:
  "\<exists>digits c. format_1f x = digits @ [CHR ''.'', c] \<and> c \<in> set ''0123456789''"
proof -
  let ?n = "nat (round_half_even (\<bar>x\<bar> * 10))"
  have "format_1f x =
      ((if x < 0 then ''-'' else []) @ nat_digits (?n div 10)) @ [CHR ''.'', digit_char (?n mod 10)]"
    by (simp add: format_1f_def Let_def)
  moreover have "digit_char (?n mod 10) \<in> set ''0123456789''"
    by (rule digit_char_digit) simp
  ultimately show ?thesis by blast
qed

lemma expected_alerts_nonempty_iff:
  "expected_alerts today row \<noteq> [] \<longleftrightarrow>
     (\<exists>limv. free_tier_limit row = Some limv \<and> limv \<noteq> 0 \<and>
        75 \<le> total_usage row / limv * 100)"
  by (auto simp: expected_alerts_def split: option.splits)

subsection \<open>Which standings get a stored alert\<close>

text \<open>
  Claim C5. For the rows the month's aggregation returns, the alert generator finishes
  without an exception and appends to the alert table exactly the rows of
  \<open>expected_alerts\<close>, in order: one for each standing with a usable limit and an exact
  percentage of at least 75, none for any other standing; \<open>critical\<close> from 90 on,
  \<open>warning\<close> between 75 and 90; the message holds the service, the usage type and the
  percentage printed with one digit after the point.
\<close>

theorem alerts_persisted_from_75:
  "(\<exists>alerts d'. check_free_tier_alerts d today fetched = Inr (alerts, d') \<and>
      free_tier_alerts d' =
        free_tier_alerts d @ concat (map (expected_alerts today) fetched)) \<and>
   (expected_alerts today row \<noteq> [] \<longleftrightarrow>
      (\<exists>limv. free_tier_limit row = Some limv \<and> limv \<noteq> 0 \<and>
         75 \<le> total_usage row / limv * 100)) \<and>
   (\<exists>digits c. format_1f x = digits @ [CHR ''.'', c] \<and> c \<in> set ''0123456789'')"
  using check_free_tier_alerts_persisted [of d today fetched]
    expected_alerts_nonempty_iff [of today row] format_1f_one_decimal [of x]
  by blast

text \<open>
  On the sample rows two alerts are stored: the 93.3 percent standing as critical, and the
  89.996 percent standing as a warning (printed as 90.0). The standings at 74.996 and 60
  percent, without a limit and with limit 0 store nothing.
\<close>

theorem alerts_persisted_from_75_witness:
  "\<exists>alerts d'. check_free_tier_alerts sample_db ''2024-01-15'' sample_fetched = Inr (alerts, d') \<and>
     map al_alert_level (free_tier_alerts d') = [''critical'', ''warning''] \<and>
     map al_message (free_tier_alerts d') =
       [''CRITICAL: Amazon Elastic Compute Cloud - Compute t2.micro usage at 93.3% of free tier limit'',
        ''WARNING: Amazon Elastic Compute Cloud - Compute t2.micro usage at 90.0% of free tier limit'']"
proof -
  have e: "concat (map (expected_alerts ''2024-01-15'') sample_fetched) =
     [\<lparr>al_service = ''Amazon Elastic Compute Cloud - Compute'', al_usage_type = ''t2.micro'',
       al_current_usage = 700, al_limit_value = 750, al_usage_percentage = 700 / 750 * 100,
       al_alert_level = ''critical'',
       al_message = ''CRITICAL: Amazon Elastic Compute Cloud - Compute t2.micro usage at 93.3% of free tier limit'',
       al_date = ''2024-01-15''\<rparr>,
      \<lparr>al_service = ''Amazon Elastic Compute Cloud - Compute'', al_usage_type = ''t2.micro'',
       al_current_usage = 89.996, al_limit_value = 100, al_usage_percentage = 89.996 / 100 * 100,
       al_alert_level = ''warning'',
       al_message = ''WARNING: Amazon Elastic Compute Cloud - Compute t2.micro usage at 90.0% of free tier limit'',
       al_date = ''2024-01-15''\<rparr>]"
    by (simp add: sample_fetched_def sample_row_def expected_alerts_def format_1f_def
        round_half_even_def nat_digits.simps digit_char_def Let_def)
  have old: "free_tier_alerts sample_db = []" by (simp add: sample_db_def)
  from alerts_persisted_from_75 [of sample_db "''2024-01-15''" sample_fetched]
  obtain alerts d' where
    "check_free_tier_alerts sample_db ''2024-01-15'' sample_fetched = Inr (alerts, d')"
    "free_tier_alerts d' =
        free_tier_alerts sample_db @ concat (map (expected_alerts ''2024-01-15'') sample_fetched)"
    by blast
  then show ?thesis unfolding e old by simp
qed

section \<open>Properties of the breach predictor\<close>

lemma predict_untracked:
  "predict_free_tier_breach now s u None = Inr None"
  "\<not> truthy (mtd_free_tier_limit row) \<Longrightarrow>
     predict_free_tier_breach now s u (Some row) = Inr None"
  by (simp_all add: predict_free_tier_breach_def)

lemma predict_tracked:
  assumes "mtd_free_tier_limit row = Some limv" and "limv \<noteq> 0" and "day now \<noteq> 0"
  shows "predict_free_tier_breach now s u (Some row) =
     (if limv < month_to_date_usage row / real (day now) * 31 then
        (if month_to_date_usage row = 0 then Inl ZeroDivisionError
         else
           (case replace_day now
                   (min 31 (int (day now) +
                      max 1 (py_int ((limv - month_to_date_usage row) /
                                     (month_to_date_usage row / real (day now)))))) of
              Inl e \<Rightarrow> Inl e
            | Inr breach_date \<Rightarrow>
                Inr (Some
                  \<lparr>pred_service = s, pred_usage_type = u,
                   pred_current_usage = month_to_date_usage row,
                   projected_usage = month_to_date_usage row / real (day now) * 31,
                   pred_limit = limv, pred_unit = mtd_usage_unit row,
                   daily_average = month_to_date_usage row / real (day now),
                   days_to_breach =
                     max 1 (py_int ((limv - month_to_date_usage row) /
                                    (month_to_date_usage row / real (day now)))),
                   projected_breach_date = breach_date,
                   confidence = (if 7 \<le> day now then ''medium'' else ''low'')\<rparr>)))
      else Inr None)"
  using assms
  by (simp add: predict_free_tier_breach_def truthy_def py_truediv_def days_in_month_def
      Let_def split: sum.splits)

lemma replace_day_cases:
  "replace_day now n = Inl ValueError \<or> replace_day now n = Inr (now\<lparr>day := nat n\<rparr>)"
  by (simp add: replace_day_def)

lemma projected_over_positive_limit:
  assumes "0 < limv" and "limv < usage / real n * 31"
  shows "0 < usage / real n" and "usage \<noteq> 0"
proof -
  from assms have "0 < usage / real n * 31" by linarith
  then show "0 < usage / real n" by (rule zero_less_mult_pos2) simp
  then show "usage \<noteq> 0" by auto
qed

lemma predict_no_zero_division:
  assumes "mtd_free_tier_limit row = Some limv" and "0 < limv" and "1 \<le> day now"
  shows "predict_free_tier_breach now s u (Some row) \<noteq> Inl ZeroDivisionError"
proof (cases "limv < month_to_date_usage row / real (day now) * 31")
  case False
  with assms show ?thesis by (simp add: predict_tracked)
next
  case True
  with assms(2) have "month_to_date_usage row \<noteq> 0"
    by (rule projected_over_positive_limit)
  with True assms show ?thesis
    using replace_day_cases [of now "min 31 (int (day now) +
        max 1 (py_int ((limv - month_to_date_usage row) /
                       (month_to_date_usage row / real (day now)))))"]
    by (auto simp: predict_tracked)
qed

subsection \<open>Usage on track\<close>

text \<open>
  Claim C6, as stated: with a limit and usage data, a projection that stays within the limit
  gives a prediction record. The method returns \<^verbatim>\<open>None\<close> there: 100 hours by the tenth
  day project to 310 of 750.
\<close>

theorem on_track_counterexample:
  "predict_free_tier_breach sample_now ''Amazon Elastic Compute Cloud - Compute'' ''t2.micro''
     (Some (sample_mtd 100 (Some 750))) = Inr None \<and>
   100 / real (day sample_now) * 31 \<le> (750 :: real)"
  by (simp add: predict_tracked [of _ 750] sample_mtd_def sample_now_def)

text \<open>
  Claim C6, amended. With a usable limit and usage data, a projection within the limit
  makes the predictor return \<^verbatim>\<open>None\<close>, the result it also gives without data and
  without a limit.
\<close>

theorem on_track_returns_none:
  assumes "mtd_free_tier_limit row = Some limv" and "limv \<noteq> 0" and "1 \<le> day now"
    and "month_to_date_usage row / real (day now) * 31 \<le> limv"
  shows "predict_free_tier_breach now s u (Some row) = Inr None \<and>
         predict_free_tier_breach now s u None = Inr None"
  using assms by (simp add: predict_tracked predict_untracked)

theorem on_track_returns_none_witness:
  "predict_free_tier_breach sample_now ''Amazon Elastic Compute Cloud - Compute'' ''t2.micro''
     (Some (sample_mtd 100 (Some 750))) = Inr None \<and>
   predict_free_tier_breach sample_now ''Amazon Elastic Compute Cloud - Compute'' ''t2.micro''
     None = Inr None"
  using on_track_returns_none [of "sample_mtd 100 (Some 750)" 750 sample_now]
  by (simp add: sample_mtd_def sample_now_def)

lemma py_int_nonneg: "0 \<le> x \<Longrightarrow> py_int x = \<lfloor>x\<rfloor>"
  by (simp add: py_int_def)

lemma py_int_neg: "x < 0 \<Longrightarrow> py_int x \<le> 0"
  by (simp add: py_int_def ceiling_le_zero)

subsection \<open>A projected breach\<close>

text \<open>
  Claim C7, as stated: the month is projected over the days of the period given (30 in the
  scenario) and the days to breach are rounded up. The method always projects over 31 days,
  so the scenario (day 10, usage 300, limit 750) gives a projected usage of 930, not 900;
  and it truncates with \<^verbatim>\<open>int\<close>: with a limit of 760 the quotient 460/30 gives 15
  days, where rounding up gives 16.
\<close>

theorem breach_scenario_counterexample:
  "predict_free_tier_breach sample_now ''Amazon Elastic Compute Cloud - Compute'' ''t2.micro''
     (Some (sample_mtd 300 (Some 750))) =
     Inr (Some
       \<lparr>pred_service = ''Amazon Elastic Compute Cloud - Compute'', pred_usage_type = ''t2.micro'',
        pred_current_usage = 300, projected_usage = 930, pred_limit = 750,
        pred_unit = ''hours'', daily_average = 30, days_to_breach = 15,
        projected_breach_date = \<lparr>year = 2024, month = 1, day = 25\<rparr>,
        confidence = ''medium''\<rparr>) \<and>
   (930 :: real) \<noteq> 900 \<and>
   predict_free_tier_breach sample_now ''Amazon Elastic Compute Cloud - Compute'' ''t2.micro''
     (Some (sample_mtd 300 (Some 760))) =
     Inr (Some
       \<lparr>pred_service = ''Amazon Elastic Compute Cloud - Compute'', pred_usage_type = ''t2.micro'',
        pred_current_usage = 300, projected_usage = 930, pred_limit = 760,
        pred_unit = ''hours'', daily_average = 30, days_to_breach = 15,
        projected_breach_date = \<lparr>year = 2024, month = 1, day = 25\<rparr>,
        confidence = ''medium''\<rparr>) \<and>
   max 1 \<lceil>(760 - 300) / (30 :: real)\<rceil> = 16"
  by (simp add: predict_tracked [of _ 750] predict_tracked [of _ 760] sample_mtd_def
      sample_now_def py_int_def replace_day_def days_in_def)

text \<open>
  Claim C7, amended. With a positive limit, on day \<open>day now\<close> (at least 1) of the month,
  the daily average is the month-to-date usage over the day number and the projection is
  the daily average times 31. When the projection exceeds the limit and the breach day,
  capped at 31, exists in the current month, a prediction is returned whose days to breach
  are \<open>max 1 (int ((limit - usage) / daily_average))\<close>, \<open>int\<close> truncating: the floor of
  the quotient while usage is within the limit, and 1 once usage is above it. The confidence
  is \<open>medium\<close> from the seventh day on and \<open>low\<close> before.
\<close>

theorem breach_prediction_values:
  assumes "mtd_free_tier_limit row = Some limv" and "0 < limv" and "1 \<le> day now"
    and "limv < month_to_date_usage row / real (day now) * 31"
    and "min 31 (int (day now) +
           max 1 (py_int ((limv - month_to_date_usage row) /
                          (month_to_date_usage row / real (day now)))))
         \<le> int (days_in (year now) (month now))"
  shows "\<exists>p. predict_free_tier_breach now s u (Some row) = Inr (Some p) \<and>
           daily_average p = month_to_date_usage row / real (day now) \<and>
           projected_usage p = daily_average p * 31 \<and>
           days_to_breach p =
             max 1 (py_int ((limv - month_to_date_usage row) / daily_average p)) \<and>
           (month_to_date_usage row \<le> limv \<longrightarrow>
              days_to_breach p =
                max 1 \<lfloor>(limv - month_to_date_usage row) / daily_average p\<rfloor>) \<and>
           (limv < month_to_date_usage row \<longrightarrow> days_to_breach p = 1) \<and>
           projected_breach_date p =
             now\<lparr>day := nat (min 31 (int (day now) + days_to_breach p))\<rparr> \<and>
           confidence p = (if 7 \<le> day now then ''medium'' else ''low'')"
proof -
  let ?da = "month_to_date_usage row / real (day now)"
  let ?q = "(limv - month_to_date_usage row) / ?da"
  let ?n = "min 31 (int (day now) + max 1 (py_int ?q))"
  from assms(2,4) have da: "0 < ?da" and nz: "month_to_date_usage row \<noteq> 0"
    by (rule projected_over_positive_limit)+
  have "1 \<le> ?n" using assms(3) by simp
  with assms(5) have rd: "replace_day now ?n = Inr (now\<lparr>day := nat ?n\<rparr>)"
    by (simp add: replace_day_def)
  have within: "max 1 (py_int ?q) = max 1 \<lfloor>?q\<rfloor>" if "month_to_date_usage row \<le> limv"
  proof -
    from that da have "0 \<le> ?q" by (intro divide_nonneg_pos) simp_all
    then show ?thesis by (simp add: py_int_nonneg)
  qed
  have above: "max 1 (py_int ?q) = 1" if "limv < month_to_date_usage row"
  proof -
    from that da have "?q < 0" by (intro divide_neg_pos) simp_all
    then have "py_int ?q \<le> 0" by (rule py_int_neg)
    then show ?thesis by simp
  qed
  from assms(1-4) nz rd have
    "predict_free_tier_breach now s u (Some row) =
       Inr (Some
         \<lparr>pred_service = s, pred_usage_type = u,
          pred_current_usage = month_to_date_usage row,
          projected_usage = ?da * 31,
          pred_limit = limv, pred_unit = mtd_usage_unit row,
          daily_average = ?da,
          days_to_breach = max 1 (py_int ?q),
          projected_breach_date = now\<lparr>day := nat ?n\<rparr>,
          confidence = (if 7 \<le> day now then ''medium'' else ''low'')\<rparr>)"
    by (simp add: predict_tracked)
  with within above show ?thesis by simp
qed

text \<open>The scenario of the specification on 10 January: 30 a day, 930 projected, 15 days.\<close>

theorem breach_prediction_values_witness:
  "(\<exists>p. predict_free_tier_breach sample_now ''Amazon Elastic Compute Cloud - Compute''
          ''t2.micro'' (Some (sample_mtd 300 (Some 750))) = Inr (Some p) \<and>
       daily_average p = 30 \<and> projected_usage p = 930 \<and> days_to_breach p = 15 \<and>
       projected_breach_date p = \<lparr>year = 2024, month = 1, day = 25\<rparr> \<and>
       confidence p = ''medium'') \<and>
   (\<exists>p. predict_free_tier_breach sample_now ''Amazon Elastic Compute Cloud - Compute''
          ''t2.micro'' (Some (sample_mtd 800 (Some 750))) = Inr (Some p) \<and>
       daily_average p = 80 \<and> projected_usage p = 2480 \<and> days_to_breach p = 1 \<and>
       projected_breach_date p = \<lparr>year = 2024, month = 1, day = 11\<rparr> \<and>
       confidence p = ''medium'')"
proof -
  have q: "py_int ((750 - 300) / (300 / real (10 :: nat))) = 15"
    "py_int ((750 - 800) / (800 / real (10 :: nat))) = 0"
    by (simp_all add: py_int_def)
  have h: "mtd_free_tier_limit (sample_mtd 300 (Some 750)) = Some 750"
    "month_to_date_usage (sample_mtd 300 (Some 750)) = 300"
    "mtd_free_tier_limit (sample_mtd 800 (Some 750)) = Some 750"
    "month_to_date_usage (sample_mtd 800 (Some 750)) = 800"
    "day sample_now = 10" "year sample_now = 2024" "month sample_now = 1"
    by (simp_all add: sample_mtd_def sample_now_def)
  have d: "days_in 2024 1 = 31" by (simp add: days_in_def)
  from breach_prediction_values [of "sample_mtd 300 (Some 750)" 750 sample_now
      "''Amazon Elastic Compute Cloud - Compute''" "''t2.micro''"]
  have first: "\<exists>p. predict_free_tier_breach sample_now ''Amazon Elastic Compute Cloud - Compute''
          ''t2.micro'' (Some (sample_mtd 300 (Some 750))) = Inr (Some p) \<and>
       daily_average p = 30 \<and> projected_usage p = 930 \<and> days_to_breach p = 15 \<and>
       projected_breach_date p = \<lparr>year = 2024, month = 1, day = 25\<rparr> \<and>
       confidence p = ''medium''"
    unfolding h q d by (auto simp: sample_now_def py_int_def)
  from breach_prediction_values [of "sample_mtd 800 (Some 750)" 750 sample_now
      "''Amazon Elastic Compute Cloud - Compute''" "''t2.micro''"]
  have second: "\<exists>p. predict_free_tier_breach sample_now ''Amazon Elastic Compute Cloud - Compute''
          ''t2.micro'' (Some (sample_mtd 800 (Some 750))) = Inr (Some p) \<and>
       daily_average p = 80 \<and> projected_usage p = 2480 \<and> days_to_breach p = 1 \<and>
       projected_breach_date p = \<lparr>year = 2024, month = 1, day = 11\<rparr> \<and>
       confidence p = ''medium''"
    unfolding h q d by (auto simp: sample_now_def py_int_def)
  from first second show ?thesis by blast
qed

section \<open>Zero divisors\<close>

text \<open>
  Claim C8, as stated: every division is guarded and a zero divisor is reported as a
  validation error. Alert creation divides by the limit it is given without a test: a
  limit of zero raises \<^verbatim>\<open>ZeroDivisionError\<close>.
\<close>

theorem zero_limit_alert_counterexample:
  "create_free_tier_alert sample_db ''2024-01-15''
     ''Amazon Elastic Compute Cloud - Compute'' ''t2.micro'' 5 0 = Inl ZeroDivisionError"
  by (rule create_free_tier_alert_zero)

text \<open>
  Claim C8, amended. A zero or missing limit is skipped by a truthiness test and reported
  as no error at all: the usage check classifies the row as \<open>unknown\<close>, the alert
  generator stores and returns nothing for it, and both finish without an exception on
  every list of rows; the breach predictor returns \<^verbatim>\<open>None\<close> for it. On a calendar
  day (at least 1) and with a positive limit the predictor raises no division error.
\<close>

theorem zero_divisors_skipped:
  "(\<exists>sts. check_free_tier_usage fetched = Inr sts) \<and>
   (\<exists>alerts d'. check_free_tier_alerts d today fetched = Inr (alerts, d')) \<and>
   (\<not> truthy (free_tier_limit row) \<longrightarrow>
      classify_row row = Inr (untracked row) \<and>
      alert_level (untracked row) = ''unknown'' \<and>
      alert_step d today (untracked row) = Inr ([], d)) \<and>
   (\<not> truthy (mtd_free_tier_limit mrow) \<longrightarrow>
      predict_free_tier_breach now s u (Some mrow) = Inr None) \<and>
   (1 \<le> day now \<and> mtd_free_tier_limit prow = Some limv \<and> 0 < limv \<longrightarrow>
      predict_free_tier_breach now s u (Some prow) \<noteq> Inl ZeroDivisionError)"
proof (intro conjI impI)
  show "\<exists>sts. check_free_tier_usage fetched = Inr sts"
    by (rule check_free_tier_usage_total)
  show "\<exists>alerts d'. check_free_tier_alerts d today fetched = Inr (alerts, d')"
    using check_free_tier_alerts_persisted [of d today fetched] by blast
next
  assume f: "\<not> truthy (free_tier_limit row)"
  then show "classify_row row = Inr (untracked row)" by (rule classify_row_untracked)
  show "alert_level (untracked row) = ''unknown''" by (simp add: untracked_def)
  from f show "alert_step d today (untracked row) = Inr ([], d)"
    by (simp add: alert_step_def untracked_def)
next
  assume "\<not> truthy (mtd_free_tier_limit mrow)"
  then show "predict_free_tier_breach now s u (Some mrow) = Inr None"
    by (rule predict_untracked)
next
  assume "1 \<le> day now \<and> mtd_free_tier_limit prow = Some limv \<and> 0 < limv"
  then show "predict_free_tier_breach now s u (Some prow) \<noteq> Inl ZeroDivisionError"
    using predict_no_zero_division [of prow limv now s u] by blast
qed

theorem zero_divisors_skipped_witness:
  "(\<exists>sts. check_free_tier_usage sample_fetched = Inr sts) \<and>
   (\<exists>alerts d'. check_free_tier_alerts sample_db ''2024-01-15'' sample_fetched = Inr (alerts, d')) \<and>
   classify_row (sample_row 5 (Some 0)) = Inr (untracked (sample_row 5 (Some 0))) \<and>
   alert_step sample_db ''2024-01-15'' (untracked (sample_row 5 (Some 0))) = Inr ([], sample_db) \<and>
   predict_free_tier_breach sample_now ''Amazon Elastic Compute Cloud - Compute'' ''t2.micro''
     (Some (sample_mtd 300 (Some 0))) = Inr None \<and>
   predict_free_tier_breach sample_now ''Amazon Elastic Compute Cloud - Compute'' ''t2.micro''
     (Some (sample_mtd 300 (Some 750))) \<noteq> Inl ZeroDivisionError"
proof -
  have a: "\<not> truthy (free_tier_limit (sample_row 5 (Some 0)))"
    by (simp add: truthy_def sample_row_def)
  have b: "\<not> truthy (mtd_free_tier_limit (sample_mtd 300 (Some 0)))"
    by (simp add: truthy_def sample_mtd_def)
  have c: "1 \<le> day sample_now \<and> mtd_free_tier_limit (sample_mtd 300 (Some 750)) = Some 750 \<and>
      (0 :: real) < 750"
    by (simp add: sample_now_def sample_mtd_def)
  from zero_divisors_skipped [of sample_fetched sample_db "''2024-01-15''"
      "sample_row 5 (Some 0)" "sample_mtd 300 (Some 0)" sample_now
      "''Amazon Elastic Compute Cloud - Compute''" "''t2.micro''"
      "sample_mtd 300 (Some 750)" 750] a b c
  show ?thesis by blast
qed

end
